theory Spec2Isabelle
  imports Main "HOL-Library.Sublist"
begin

section \<open>The module \<open>cpm_serial_port_action_info\<close>\<close>

text \<open>
  The module is the single function \<open>run_module\<close>: it reads seven parameters, builds a
  header dictionary and a URL, issues one GET through \<open>open_url\<close>, and either exits with
  the decoded body, fails with a message, or lets an exception escape.

  Text is modelled as \<open>string\<close>, the byte sequence of its UTF-8 encoding, so that
  \<open>to_bytes\<close> and \<open>to_text\<close> are the identity on it and \<open>len(s) > 0\<close> is \<open>s \<noteq> []\<close>.
\<close>

subsection \<open>Parameters\<close>

text \<open>
  \<open>module.params\<close> after argument validation. \<open>cpm_username\<close> is the only parameter that is
  neither required nor defaulted, so it is the only one that can be \<open>None\<close>.
\<close>

record params =
  cpm_url :: string
  cpm_username :: "string option"
  cpm_password :: string
  port :: "string list"
  use_https :: bool
  validate_certs :: bool
  use_proxy :: bool

text \<open>
  \<open>to_native\<close> returns a string unchanged and turns any other object into \<open>str(obj)\<close>;
  for \<open>None\<close> that is the text \<open>None\<close>.
\<close>

fun to_native :: "string option \<Rightarrow> string" where
  "to_native None = ''None''"
| "to_native (Some s) = s"

subsection \<open>Library functions used by the module\<close>

text \<open>\<open>base64.b64encode\<close>: three bytes become four characters of the standard alphabet,
  a last group of one or two bytes is padded with \<open>=\<close>.\<close>

definition b64_alphabet :: string where
  "b64_alphabet = ''ABCDEFGHIJKLMNOPQRSTUVWXYZabcdefghijklmnopqrstuvwxyz0123456789+/''"

definition b64_char :: "nat \<Rightarrow> char" where
  "b64_char i = b64_alphabet ! i"

fun b64encode :: "string \<Rightarrow> string" where
  "b64encode [] = []"
| "b64encode [a] =
     (let n = of_char a * 65536
      in [b64_char (n div 262144), b64_char (n div 4096 mod 64), CHR ''='', CHR ''=''])"
| "b64encode [a, b] =
     (let n = of_char a * 65536 + of_char b * 256
      in [b64_char (n div 262144), b64_char (n div 4096 mod 64),
          b64_char (n div 64 mod 64), CHR ''=''])"
| "b64encode (a # b # c # rest) =
     (let n = of_char a * 65536 + of_char b * 256 + of_char c
      in [b64_char (n div 262144), b64_char (n div 4096 mod 64),
          b64_char (n div 64 mod 64), b64_char (n mod 64)] @ b64encode rest)"

text \<open>\<open>sep.join(items)\<close>.\<close>

fun str_join :: "string \<Rightarrow> string list \<Rightarrow> string" where
  "str_join sep [] = []"
| "str_join sep [x] = x"
| "str_join sep (x # y # ys) = x @ sep @ str_join sep (y # ys)"

subsection \<open>The request\<close>

text \<open>The arguments \<open>run_module\<close> passes to \<open>open_url\<close>.\<close>

record request =
  req_url :: string
  req_data :: "string option"
  req_method :: string
  req_validate_certs :: bool
  req_use_proxy :: bool
  req_headers :: "string \<rightharpoonup> string"

text \<open>Lines 162 to 167: the header dictionary.\<close>

definition header :: "params \<Rightarrow> (string \<rightharpoonup> string)" where
  "header p =
     (if length (to_native (cpm_username p)) > 0 then
        (let auth = b64encode (to_native (cpm_username p) @ '':'' @ to_native (Some (cpm_password p)))
         in [''Content-Type'' \<mapsto> ''application/json'', ''Authorization'' \<mapsto> ''Basic '' @ auth])
      else
        [''Content-Type'' \<mapsto> ''application/json'',
         ''X-WTI-API-KEY'' \<mapsto> to_native (Some (cpm_password p))])"

text \<open>Lines 169 to 172.\<close>

definition protocol :: "params \<Rightarrow> string" where
  "protocol p = (if use_https p then ''https://'' else ''http://'')"

text \<open>Lines 174 to 176. The parameter has type list, so the \<open>isinstance\<close> test holds.\<close>

definition ports :: "params \<Rightarrow> string" where
  "ports p = str_join '','' (map (\<lambda>x. to_native (Some x)) (port p))"

text \<open>Lines 177 and 178.\<close>

definition fullurl :: "params \<Rightarrow> string" where
  "fullurl p =
     protocol p @ to_native (Some (cpm_url p)) @ ''/api/v2''
       @ (if length (to_native (cpm_username p)) \<noteq> 0 then '''' else ''/token'')
       @ ''/config/serialportsaction?ports='' @ ports p"

definition request :: "params \<Rightarrow> request" where
  "request p =
     \<lparr>req_url = fullurl p, req_data = None, req_method = ''GET'',
      req_validate_certs = validate_certs p, req_use_proxy = use_proxy p,
      req_headers = header p\<rparr>"

subsection \<open>The network and the exceptions\<close>

text \<open>
  The exception classes that matter to the \<open>try\<close> statement. In the libraries \<open>HTTPError\<close>
  is a subclass of \<open>URLError\<close> and \<open>SSLValidationError\<close> a subclass of \<open>ConnectionError\<close>;
  \<open>ValueError\<close> is what \<open>json.loads\<close> raises. \<open>exc_text\<close> is \<open>to_native(e)\<close>.
\<close>

datatype exc_class =
  HTTPError | URLError | SSLValidationError | ConnectionError | ValueError | OtherException

record exc =
  exc_class :: exc_class
  exc_text :: string

fun issubclass :: "exc_class \<Rightarrow> exc_class \<Rightarrow> bool" where
  "issubclass HTTPError URLError = True"
| "issubclass SSLValidationError ConnectionError = True"
| "issubclass a b = (a = b)"

definition isinstance :: "exc \<Rightarrow> exc_class \<Rightarrow> bool" where
  "isinstance e c = issubclass (exc_class e) c"

text \<open>
  The remote side answers the \<open>n\<close>-th call of an invocation either with a body or with an
  exception. \<open>open_url\<close> records the call in the log of requests made so far.
\<close>

type_synonym server = "nat \<Rightarrow> request \<Rightarrow> exc + string"

definition open_url :: "server \<Rightarrow> request \<Rightarrow> request list \<Rightarrow> (exc + string) \<times> request list" where
  "open_url srv req log = (srv (length log) req, log @ [req])"

subsection \<open>Outcomes\<close>

text \<open>
  The values of the keyword dictionaries handed to \<open>exit_json\<close> and \<open>fail_json\<close>:
  a boolean, a text, or the value \<open>json.loads\<close> decoded.
\<close>

datatype 'v pyval = PyBool bool | PyStr string | Decoded 'v

datatype 'v outcome =
  ExitJson "string \<rightharpoonup> 'v pyval"
| FailJson "string \<rightharpoonup> 'v pyval"
| Uncaught exc

text \<open>A decoded JSON document, for concrete runs.\<close>

datatype json =
  JNull | JBool bool | JInt int | JStr string | JArray "json list" | JObject "(string \<times> json) list"

subsection \<open>\<open>run_module\<close>\<close>

text \<open>
  Lines 155 to 199. \<open>loads\<close> is \<open>json.loads\<close>: \<open>Inl m\<close> when it raises a \<open>ValueError\<close> with
  text \<open>m\<close>. The \<open>except\<close> clauses are tried in the order of the source. \<open>fail_json\<close> and
  \<open>exit_json\<close> end the process, an exception no clause matches escapes.
\<close>

definition run_module ::
  "(string \<Rightarrow> string + 'v) \<Rightarrow> server \<Rightarrow> params \<Rightarrow> 'v outcome \<times> request list" where
  "run_module loads srv p =
     (let result = [''changed'' \<mapsto> PyBool False, ''data'' \<mapsto> PyStr ''''];
          (response, log) = open_url srv (request p) []
      in case response of
           Inl e \<Rightarrow>
             if isinstance e HTTPError then
               (FailJson [''msg'' \<mapsto> PyStr (''GET: Received HTTP error for '' @ fullurl p @ '' : '' @ exc_text e),
                          ''changed'' \<mapsto> PyBool False], log)
             else if isinstance e URLError then
               (FailJson [''msg'' \<mapsto> PyStr (''GET: Failed lookup url for '' @ fullurl p @ '' : '' @ exc_text e),
                          ''changed'' \<mapsto> PyBool False], log)
             else if isinstance e SSLValidationError then
               (FailJson [''msg'' \<mapsto> PyStr (''GET: Error validating the servers certificate for ''
                                               @ fullurl p @ '' : '' @ exc_text e),
                          ''changed'' \<mapsto> PyBool False], log)
             else if isinstance e ConnectionError then
               (FailJson [''msg'' \<mapsto> PyStr (''GET: Error connecting to '' @ fullurl p @ '' : '' @ exc_text e),
                          ''changed'' \<mapsto> PyBool False], log)
             else (Uncaught e, log)
         | Inr body \<Rightarrow>
             (case loads body of
                Inl m \<Rightarrow> (Uncaught \<lparr>exc_class = ValueError, exc_text = m\<rparr>, log)
              | Inr j \<Rightarrow> (ExitJson (result(''data'' \<mapsto> Decoded j)), log)))"

subsection \<open>The specification's vocabulary\<close>

text \<open>
  The specification's port selector: the elements in the given order, a comma before every
  element but the first. This definition follows the words of the specification, not the code.
\<close>

fun comma_joined :: "string list \<Rightarrow> string" where
  "comma_joined [] = []"
| "comma_joined (x # xs) = x @ concat (map (\<lambda>y. CHR '','' # y) xs)"

text \<open>Cutting a text at every occurrence of a separator character, to read a selector back.\<close>

fun split_on :: "char \<Rightarrow> string \<Rightarrow> string list" where
  "split_on c [] = [[]]"
| "split_on c (x # xs) =
     (if x = c then [] # split_on c xs
      else (case split_on c xs of [] \<Rightarrow> [[x]] | w # ws \<Rightarrow> (x # w) # ws))"

subsection \<open>Concrete runs\<close>

text \<open>The parameter sets of the module's documented examples, and one without a username.\<close>

definition p_super :: params where
  "p_super = \<lparr>cpm_url = ''nonexist.wti.com'', cpm_username = Some ''super'',
     cpm_password = ''super'', port = [''2''], use_https = True, validate_certs = False,
     use_proxy = False\<rparr>"

definition p_token :: params where
  "p_token = \<lparr>cpm_url = ''nonexist.wti.com'', cpm_username = Some [],
     cpm_password = ''randomusertokenfromthewtidevice'', port = [''2''], use_https = True,
     validate_certs = False, use_proxy = False\<rparr>"

definition p_absent :: params where
  "p_absent = \<lparr>cpm_url = ''nonexist.wti.com'', cpm_username = None,
     cpm_password = ''pw'', port = [''*''], use_https = False, validate_certs = False,
     use_proxy = False\<rparr>"

text \<open>The body of the specification's example answer and its decoded value.\<close>

definition example_body :: string where
  \<open>example_body = ''[{"port":2,"connstatus":"Free"}]''\<close>

definition example_data :: json where
  "example_data = JArray [JObject [(''port'', JInt 2), (''connstatus'', JStr ''Free'')]]"

definition example_loads :: "string \<Rightarrow> string + json" where
  "example_loads b = (if b = example_body then Inr example_data else Inl ''Expecting value'')"

definition srv_body :: "string \<Rightarrow> server" where
  "srv_body b = (\<lambda>n r. Inr b)"

definition srv_raises :: "exc_class \<Rightarrow> string \<Rightarrow> server" where
  "srv_raises c t = (\<lambda>n r. Inl \<lparr>exc_class = c, exc_text = t\<rparr>)"

section \<open>Properties\<close>

subsection \<open>Auxiliary facts\<close>

lemma str_join_comma_joined: "str_join '','' xs = comma_joined xs"
  by (induction "'',''" xs rule: str_join.induct) simp_all

lemma split_on_no_sep: "c \<notin> set s \<Longrightarrow> split_on c s = [s]"
  by (induction s) auto

lemma split_on_append: "c \<notin> set s \<Longrightarrow> split_on c (s @ c # rest) = s # split_on c rest"
  by (induction s) auto

lemma split_on_str_join:
  "xs \<noteq> [] \<Longrightarrow> \<forall>x \<in> set xs. c \<notin> set x \<Longrightarrow> split_on c (str_join [c] xs) = xs"
proof (induction "[c]" xs rule: str_join.induct)
  case 1
  then show ?case by simp
next
  case (2 x)
  then show ?case by (simp add: split_on_no_sep)
next
  case (3 x y ys)
  then show ?case by (simp add: split_on_append)
qed

lemma length_b64encode: "length (b64encode s) = 4 * ((length s + 2) div 3)"
proof (induction s rule: b64encode.induct)
  case (4 a b c rest)
  have "(length rest + 5) div 3 = Suc ((length rest + 2) div 3)"
    by arith
  with 4 show ?case
    by (simp add: Let_def add.commute)
qed (simp_all add: Let_def)

lemma map_to_native_Some: "map (\<lambda>x. to_native (Some x)) xs = xs"
  by (induction xs) simp_all

lemma ports_comma_joined: "ports p = comma_joined (port p)"
  by (simp add: ports_def map_to_native_Some str_join_comma_joined)

lemma run_module_log: "snd (run_module loads srv p) = [request p]"
  by (simp add: run_module_def open_url_def Let_def split: sum.splits)

subsection \<open>Authentication headers\<close>

text \<open>
  C1. When \<open>cpm_username\<close> is a non-empty string, the header dictionary holds
  \<open>Content-Type: application/json\<close> and \<open>Authorization: Basic\<close> followed by the base64
  encoding of username, colon, password, and has no \<open>X-WTI-API-KEY\<close> entry. When it is the
  empty string, the dictionary holds \<open>Content-Type: application/json\<close> and \<open>X-WTI-API-KEY\<close>
  set to the password, and has no \<open>Authorization\<close> entry. These are the headers of the one
  request the module makes.
\<close>

theorem header_by_username:
  assumes "cpm_username p = Some u"
  shows "(u \<noteq> [] \<longrightarrow>
            header p ''Content-Type'' = Some ''application/json''
          \<and> header p ''Authorization'' = Some (''Basic '' @ b64encode (u @ '':'' @ cpm_password p))
          \<and> header p ''X-WTI-API-KEY'' = None)
       \<and> (u = [] \<longrightarrow>
            header p ''Content-Type'' = Some ''application/json''
          \<and> header p ''X-WTI-API-KEY'' = Some (cpm_password p)
          \<and> header p ''Authorization'' = None)
       \<and> map req_headers (snd (run_module loads srv p)) = [header p]"
  using assms by (simp add: header_def run_module_log request_def)

theorem header_by_username_witness:
  "header p_super ''Authorization'' = Some ''Basic c3VwZXI6c3VwZXI=''
   \<and> header p_super ''X-WTI-API-KEY'' = None
   \<and> header p_token ''X-WTI-API-KEY'' = Some ''randomusertokenfromthewtidevice''
   \<and> header p_token ''Authorization'' = None"
  using header_by_username [of p_super "''super''" example_loads "srv_body example_body"]
    header_by_username [of p_token "[]" example_loads "srv_body example_body"]
  by (simp add: p_super_def p_token_def b64_char_def b64_alphabet_def)

subsection \<open>The URL\<close>

text \<open>
  C2. The request path is \<open>/api/v2/config/serialportsaction\<close> when \<open>cpm_username\<close> is
  non-empty and \<open>/api/v2/token/config/serialportsaction\<close> when it is empty: the segment
  \<open>/token\<close> stands between \<open>/api/v2\<close> and \<open>/config\<close> exactly when the username is the
  empty string. The path follows the scheme and the host and precedes the query.
\<close>

theorem request_path:
  "fullurl p = protocol p @ cpm_url p
      @ (if cpm_username p = Some [] then ''/api/v2/token/config/serialportsaction''
         else ''/api/v2/config/serialportsaction'')
      @ ''?ports='' @ ports p"
  by (cases "cpm_username p") (simp_all add: fullurl_def)

theorem request_path_witness:
  "fullurl p_super = ''https://nonexist.wti.com/api/v2/config/serialportsaction?ports=2''
   \<and> fullurl p_token = ''https://nonexist.wti.com/api/v2/token/config/serialportsaction?ports=2''"
  using request_path [of p_super] request_path [of p_token]
  by (simp add: p_super_def p_token_def protocol_def ports_def)

text \<open>
  C3. The value of the \<open>ports\<close> query parameter is the list of port strings joined with
  commas, in the given order, every element unchanged, nothing removed and nothing checked:
  the URL ends with \<open>?ports=\<close> and the specification's selector; the lists \<open>["2"]\<close>,
  \<open>["2","4"]\<close> and \<open>["*"]\<close> give URLs ending \<open>?ports=2\<close>, \<open>?ports=2,4\<close> and \<open>?ports=*\<close>;
  and cutting the value at its commas gives the list back, duplicates included, whenever
  the list is not empty and no element holds a comma.
\<close>

theorem ports_query:
  "suffix (''?ports='' @ comma_joined (port p)) (fullurl p)
   \<and> suffix ''?ports=2'' (fullurl (p\<lparr>port := [''2'']\<rparr>))
   \<and> suffix ''?ports=2,4'' (fullurl (p\<lparr>port := [''2'', ''4'']\<rparr>))
   \<and> suffix ''?ports=*'' (fullurl (p\<lparr>port := [''*'']\<rparr>))
   \<and> (port p \<noteq> [] \<and> (\<forall>x \<in> set (port p). CHR '','' \<notin> set x)
        \<longrightarrow> split_on (CHR '','') (ports p) = port p)"
proof -
  have u: "\<And>q. fullurl q = (protocol q @ to_native (Some (cpm_url q)) @ ''/api/v2''
       @ (if length (to_native (cpm_username q)) \<noteq> 0 then '''' else ''/token'')
       @ ''/config/serialportsaction'') @ ''?ports='' @ comma_joined (port q)"
    by (simp add: fullurl_def ports_comma_joined)
  have a: "\<And>q. suffix (''?ports='' @ comma_joined (port q)) (fullurl q)"
    unfolding u by (rule suffixI) (rule refl)
  have b: "suffix ''?ports=2'' (fullurl (p\<lparr>port := [''2'']\<rparr>))"
    using a [of "p\<lparr>port := [''2'']\<rparr>"] by simp
  have c: "suffix ''?ports=2,4'' (fullurl (p\<lparr>port := [''2'', ''4'']\<rparr>))"
    using a [of "p\<lparr>port := [''2'', ''4'']\<rparr>"] by simp
  have d: "suffix ''?ports=*'' (fullurl (p\<lparr>port := [''*'']\<rparr>))"
    using a [of "p\<lparr>port := [''*'']\<rparr>"] by simp
  have e: "port p \<noteq> [] \<and> (\<forall>x \<in> set (port p). CHR '','' \<notin> set x)
        \<longrightarrow> split_on (CHR '','') (ports p) = port p"
    using split_on_str_join [of "port p" "CHR '',''"]
    by (simp add: ports_def map_to_native_Some)
  from a b c d e show ?thesis by blast
qed

theorem ports_query_witness:
  "suffix ''?ports=2,2,x4'' (fullurl (p_super\<lparr>port := [''2'', ''2'', ''x4'']\<rparr>))
   \<and> split_on (CHR '','') (ports (p_super\<lparr>port := [''2'', ''2'', ''x4'']\<rparr>)) = [''2'', ''2'', ''x4'']"
  using ports_query [of "p_super\<lparr>port := [''2'', ''2'', ''x4'']\<rparr>"]
  by simp

text \<open>
  C4. The full URL is the scheme, \<open>cpm_url\<close>, the path, \<open>?ports=\<close> and the comma-joined
  selector, one after the other; the scheme is \<open>https://\<close> exactly when \<open>use_https\<close> is true
  and \<open>http://\<close> otherwise; the path is the one the username selects. It is the URL of the
  one request made.
\<close>

theorem full_url_composition:
  "fullurl p = (if use_https p then ''https://'' else ''http://'') @ cpm_url p
      @ (if to_native (cpm_username p) = [] then ''/api/v2/token/config/serialportsaction''
         else ''/api/v2/config/serialportsaction'')
      @ ''?ports='' @ comma_joined (port p)
   \<and> map req_url (snd (run_module loads srv p)) = [fullurl p]"
  by (simp add: fullurl_def protocol_def ports_comma_joined run_module_log request_def)

theorem full_url_composition_witness:
  "map req_url (snd (run_module example_loads (srv_body example_body) p_absent)) =
     [''http://nonexist.wti.com/api/v2/config/serialportsaction?ports=*'']"
  using full_url_composition [of p_absent example_loads "srv_body example_body"]
  by (simp add: p_absent_def)

subsection \<open>Outcomes of the call\<close>

text \<open>
  C5. When the call returns a body and the body decodes, the module exits with the
  dictionary whose \<open>changed\<close> is false and whose \<open>data\<close> is exactly the decoded value, after
  one request.
\<close>

theorem success_returns_decoded:
  assumes "srv 0 (request p) = Inr body" and "loads body = Inr j"
  shows "run_module loads srv p =
           (ExitJson [''changed'' \<mapsto> PyBool False, ''data'' \<mapsto> Decoded j], [request p])"
  using assms by (simp add: run_module_def open_url_def)

theorem success_returns_decoded_witness:
  "run_module example_loads (srv_body example_body) p_super =
     (ExitJson [''changed'' \<mapsto> PyBool False,
                ''data'' \<mapsto> Decoded (JArray [JObject [(''port'', JInt 2), (''connstatus'', JStr ''Free'')]])],
      [request p_super])"
  using success_returns_decoded [of "srv_body example_body" p_super example_body example_loads example_data]
  by (simp add: srv_body_def example_loads_def example_data_def)

text \<open>
  C6. When the call raises an exception of one of the four caught classes, the module
  fails: the failure dictionary has a \<open>msg\<close> that contains the full URL and the text of the
  exception, \<open>changed\<close> false and no \<open>data\<close> entry, and exactly one request was made.
\<close>

theorem recognized_failure_fails:
  assumes "srv 0 (request p) = Inl e"
    and "exc_class e \<in> {HTTPError, URLError, SSLValidationError, ConnectionError}"
  shows "\<exists>kw msg. run_module loads srv p = (FailJson kw, [request p])
           \<and> kw ''msg'' = Some (PyStr msg) \<and> sublist (fullurl p) msg \<and> sublist (exc_text e) msg
           \<and> kw ''changed'' = Some (PyBool False) \<and> kw ''data'' = None"
proof -
  have sub: "\<And>pre. sublist (fullurl p) (pre @ fullurl p @ '' : '' @ exc_text e)
                 \<and> sublist (exc_text e) (pre @ fullurl p @ '' : '' @ exc_text e)"
  proof
    fix pre
    show "sublist (fullurl p) (pre @ fullurl p @ '' : '' @ exc_text e)"
      by (rule sublist_appendI)
    have "sublist (exc_text e) ((pre @ fullurl p @ '' : '') @ exc_text e @ [])"
      by (rule sublist_appendI)
    then show "sublist (exc_text e) (pre @ fullurl p @ '' : '' @ exc_text e)"
      by simp
  qed
  from assms(2) consider "exc_class e = HTTPError" | "exc_class e = URLError"
    | "exc_class e = SSLValidationError" | "exc_class e = ConnectionError"
    by auto
  then show ?thesis
  proof cases
    case 1
    with assms(1) sub [of "''GET: Received HTTP error for ''"] show ?thesis
      by (simp add: run_module_def open_url_def isinstance_def)
  next
    case 2
    with assms(1) sub [of "''GET: Failed lookup url for ''"] show ?thesis
      by (simp add: run_module_def open_url_def isinstance_def)
  next
    case 3
    with assms(1) sub [of "''GET: Error validating the servers certificate for ''"] show ?thesis
      by (simp add: run_module_def open_url_def isinstance_def)
  next
    case 4
    with assms(1) sub [of "''GET: Error connecting to ''"] show ?thesis
      by (simp add: run_module_def open_url_def isinstance_def)
  qed
qed

theorem recognized_failure_fails_witness:
  "\<exists>kw msg. run_module example_loads (srv_raises HTTPError ''HTTP Error 500: Internal Server Error'') p_super
               = (FailJson kw, [request p_super])
           \<and> kw ''msg'' = Some (PyStr msg) \<and> sublist (fullurl p_super) msg
           \<and> sublist ''HTTP Error 500: Internal Server Error'' msg
           \<and> kw ''changed'' = Some (PyBool False) \<and> kw ''data'' = None"
  using recognized_failure_fails [of "srv_raises HTTPError ''HTTP Error 500: Internal Server Error''"
      p_super "\<lparr>exc_class = HTTPError, exc_text = ''HTTP Error 500: Internal Server Error''\<rparr>" example_loads]
  by (simp add: srv_raises_def)

text \<open>
  C7. For the same parameters, a run whose call raises a certificate validation error and a
  run whose call raises a plain connection error both fail with \<open>changed\<close> false, and their
  messages differ, whatever the texts of the two exceptions are.
\<close>

theorem tls_and_connection_messages_differ:
  assumes "srv1 0 (request p) = Inl e1" and "exc_class e1 = SSLValidationError"
    and "srv2 0 (request p) = Inl e2" and "exc_class e2 = ConnectionError"
  shows "\<exists>m1 m2.
           fst (run_module loads srv1 p) = FailJson [''msg'' \<mapsto> PyStr m1, ''changed'' \<mapsto> PyBool False]
         \<and> fst (run_module loads srv2 p) = FailJson [''msg'' \<mapsto> PyStr m2, ''changed'' \<mapsto> PyBool False]
         \<and> m1 \<noteq> m2"
proof -
  let ?m1 = "''GET: Error validating the servers certificate for '' @ fullurl p @ '' : '' @ exc_text e1"
  let ?m2 = "''GET: Error connecting to '' @ fullurl p @ '' : '' @ exc_text e2"
  have 1: "fst (run_module loads srv1 p) = FailJson [''msg'' \<mapsto> PyStr ?m1, ''changed'' \<mapsto> PyBool False]"
    using assms(1,2) by (simp add: run_module_def open_url_def isinstance_def)
  have 2: "fst (run_module loads srv2 p) = FailJson [''msg'' \<mapsto> PyStr ?m2, ''changed'' \<mapsto> PyBool False]"
    using assms(3,4) by (simp add: run_module_def open_url_def isinstance_def)
  have 3: "?m1 \<noteq> ?m2"
    by simp
  from 1 2 3 show ?thesis by blast
qed

theorem tls_and_connection_messages_differ_witness:
  "\<exists>m1 m2.
     fst (run_module example_loads (srv_raises SSLValidationError ''reset'') p_super)
       = FailJson [''msg'' \<mapsto> PyStr m1, ''changed'' \<mapsto> PyBool False]
   \<and> fst (run_module example_loads (srv_raises ConnectionError ''reset'') p_super)
       = FailJson [''msg'' \<mapsto> PyStr m2, ''changed'' \<mapsto> PyBool False]
   \<and> m1 \<noteq> m2"
  using tls_and_connection_messages_differ [of "srv_raises SSLValidationError ''reset''" p_super
      "\<lparr>exc_class = SSLValidationError, exc_text = ''reset''\<rparr>"
      "srv_raises ConnectionError ''reset''"
      "\<lparr>exc_class = ConnectionError, exc_text = ''reset''\<rparr>" example_loads]
  by (simp add: srv_raises_def)

text \<open>
  C8. Whatever the parameters and the remote side do, a dictionary the module exits or
  fails with has \<open>changed\<close> false; and when the call returns a body that decodes or raises
  one of the four caught classes, the module does exit or fail with such a dictionary.
\<close>

theorem changed_always_false:
  "(\<forall>kw. fst (run_module loads srv p) = ExitJson kw \<or> fst (run_module loads srv p) = FailJson kw
          \<longrightarrow> kw ''changed'' = Some (PyBool False))
   \<and> ((case srv 0 (request p) of
          Inl e \<Rightarrow> exc_class e \<in> {HTTPError, URLError, SSLValidationError, ConnectionError}
        | Inr body \<Rightarrow> (\<exists>j. loads body = Inr j))
       \<longrightarrow> (\<exists>kw. (fst (run_module loads srv p) = ExitJson kw \<or> fst (run_module loads srv p) = FailJson kw)
               \<and> kw ''changed'' = Some (PyBool False)))"
proof (cases "srv 0 (request p)")
  case (Inl e)
  then show ?thesis
    by (cases "exc_class e") (auto simp add: run_module_def open_url_def isinstance_def)
next
  case (Inr body)
  then show ?thesis
    by (cases "loads body") (auto simp add: run_module_def open_url_def)
qed

theorem changed_always_false_witness:
  "(\<exists>kw. (fst (run_module example_loads (srv_body example_body) p_token) = ExitJson kw
           \<or> fst (run_module example_loads (srv_body example_body) p_token) = FailJson kw)
         \<and> kw ''changed'' = Some (PyBool False))
   \<and> (\<exists>kw. (fst (run_module example_loads (srv_raises URLError ''unknown host'') p_token) = ExitJson kw
           \<or> fst (run_module example_loads (srv_raises URLError ''unknown host'') p_token) = FailJson kw)
         \<and> kw ''changed'' = Some (PyBool False))"
  using changed_always_false [of example_loads "srv_body example_body" p_token]
    changed_always_false [of example_loads "srv_raises URLError ''unknown host''" p_token]
  by (simp add: srv_body_def srv_raises_def example_loads_def)

text \<open>
  C9. When the call returns a body that does not decode, the error \<open>json.loads\<close> raised
  leaves \<open>run_module\<close> uncaught: the outcome is that exception and never an exit with a
  \<open>data\<close> payload.
\<close>

theorem invalid_json_raises:
  assumes "srv 0 (request p) = Inr body" and "loads body = Inl m"
  shows "run_module loads srv p = (Uncaught \<lparr>exc_class = ValueError, exc_text = m\<rparr>, [request p])
         \<and> (\<forall>kw. fst (run_module loads srv p) \<noteq> ExitJson kw)"
  using assms by (simp add: run_module_def open_url_def)

theorem invalid_json_raises_witness:
  "run_module example_loads (srv_body ''<html>busy</html>'') p_super =
     (Uncaught \<lparr>exc_class = ValueError, exc_text = ''Expecting value''\<rparr>, [request p_super])"
  using invalid_json_raises [of "srv_body ''<html>busy</html>''" p_super "''<html>busy</html>''"
      example_loads "''Expecting value''"]
  by (simp add: srv_body_def example_loads_def example_body_def)

subsection \<open>An absent username\<close>

text \<open>
  C10. The token header is present only when \<open>cpm_username\<close> is exactly the empty string.
  When \<open>cpm_username\<close> is \<open>None\<close>, its conversion to text is the four characters \<open>None\<close>,
  the header dictionary carries Basic authorization for the user name \<open>None\<close> with
  \<open>cpm_password\<close>, and the path has no \<open>/token\<close> segment.
\<close>

theorem absent_username_is_basic_auth:
  "(header p ''X-WTI-API-KEY'' \<noteq> None \<longleftrightarrow> cpm_username p = Some [])
   \<and> (cpm_username p = None \<longrightarrow>
        to_native (cpm_username p) = ''None'' \<and> length (to_native (cpm_username p)) = 4
      \<and> header p = [''Content-Type'' \<mapsto> ''application/json'',
                    ''Authorization'' \<mapsto> ''Basic '' @ b64encode (''None:'' @ cpm_password p)]
      \<and> fullurl p = protocol p @ cpm_url p @ ''/api/v2/config/serialportsaction?ports='' @ ports p)"
  by (cases "cpm_username p") (auto simp add: header_def fullurl_def)

theorem absent_username_is_basic_auth_witness:
  "header p_absent ''Authorization'' = Some ''Basic Tm9uZTpwdw==''
   \<and> header p_absent ''X-WTI-API-KEY'' = None
   \<and> fullurl p_absent = ''http://nonexist.wti.com/api/v2/config/serialportsaction?ports=*''"
  using absent_username_is_basic_auth [of p_absent]
  by (simp add: p_absent_def b64_char_def b64_alphabet_def protocol_def ports_def)

end
